theory Spec2Isabelle
  imports Main
begin

section \<open>Requests, exceptions and responses\<close>

text \<open>
  The views of \<^verbatim>\<open>contacts/views/company.py\<close> are functions of a request and of the
  persistent store. A raised exception is the left summand of the result; what a view
  changes (the store, the notifications queued for the user) is returned with it.
\<close>

text \<open>
  \<^verbatim>\<open>request.POST\<close>: the submitted pairs in the order of the body; a key may occur
  more than once.
\<close>

type_synonym querydict = "(string \<times> string) list"

record user =
  permissions :: "string list"

record request =
  user :: user
  "method" :: string
  POST :: querydict

datatype exn =
    Http404
  | DoesNotExist
  | MultipleObjectsReturned
  | MultiValueDictKeyError string
  | EmptyPage
  | PageNotAnInteger

definition has_perm :: "user \<Rightarrow> string \<Rightarrow> bool" where
  "has_perm u perm = (perm \<in> set (permissions u))"

text \<open>
  \<^verbatim>\<open>QueryDict.__getitem__\<close>: the last value submitted under the key;
  \<^verbatim>\<open>MultiValueDictKeyError\<close> (a \<^verbatim>\<open>KeyError\<close>) when the key is absent.
\<close>

definition getitem :: "querydict \<Rightarrow> string \<Rightarrow> exn + string" where
  "getitem d key =
     (case filter (\<lambda>kv. fst kv = key) d of
        [] \<Rightarrow> Inl (MultiValueDictKeyError key)
      | kv # kvs \<Rightarrow> Inr (snd (last (kv # kvs))))"

section \<open>The store\<close>

text \<open>
  Modelled from the spec: the Company model and its sub-records
  (\<^verbatim>\<open>contacts/models.py\<close> is not among the sources). A company has an integer
  primary key and a name; a sub-record names its owner by type and primary key.
\<close>

record company =
  pk :: int
  name :: string

record subrecord =
  owner_type :: string
  owner_id :: int
  content :: string

record store =
  company_rows :: "company list"
  phone_numbers :: "subrecord list"
  email_addresses :: "subrecord list"
  web_sites :: "subrecord list"
  street_addresses :: "subrecord list"

text \<open>What a request leaves behind: the store and the queued notifications (level, text).\<close>

record world =
  db :: store
  messages :: "(string \<times> string) list"

definition messages_success :: "string \<Rightarrow> world \<Rightarrow> world" where
  "messages_success msg w = w\<lparr>messages := messages w @ [(''success'', msg)]\<rparr>"

text \<open>\<^verbatim>\<open>Company.objects.all()\<close>: every company, in the store's order.\<close>

definition objects_all :: "store \<Rightarrow> company list" where
  "objects_all s = company_rows s"

text \<open>
  \<^verbatim>\<open>pk__iexact\<close> compares the key's text with the argument taken from the URL,
  ignoring the case of ASCII letters.
\<close>

definition digit_char :: "nat \<Rightarrow> char" where
  "digit_char d = char_of (48 + d)"

fun str_of_nat :: "nat \<Rightarrow> string" where
  "str_of_nat n =
     (if n < 10 then [digit_char n] else str_of_nat (n div 10) @ [digit_char (n mod 10)])"

declare str_of_nat.simps [simp del]

definition str_of_int :: "int \<Rightarrow> string" where
  "str_of_int i = (if i < 0 then CHR ''-'' # str_of_nat (nat (- i)) else str_of_nat (nat i))"

definition upper_char :: "char \<Rightarrow> char" where
  "upper_char c =
     (let n = (of_char c :: nat) in if 97 \<le> n \<and> n \<le> 122 then char_of (n - 32) else c)"

definition iexact :: "string \<Rightarrow> string \<Rightarrow> bool" where
  "iexact a b = (map upper_char a = map upper_char b)"

text \<open>
  \<^verbatim>\<open>Company.objects.get(pk__iexact=pk)\<close>: the one matching row;
  \<^verbatim>\<open>DoesNotExist\<close> when there is none, \<^verbatim>\<open>MultipleObjectsReturned\<close> when there
  are several.
\<close>

definition objects_get :: "store \<Rightarrow> string \<Rightarrow> exn + company" where
  "objects_get s pk_arg =
     (case filter (\<lambda>c. iexact (str_of_int (pk c)) pk_arg) (company_rows s) of
        [] \<Rightarrow> Inl DoesNotExist
      | [c] \<Rightarrow> Inr c
      | _ \<Rightarrow> Inl MultipleObjectsReturned)"

text \<open>
  Modelled from the spec: \<^verbatim>\<open>company.delete()\<close> (\<^verbatim>\<open>contacts/models.py\<close> is not
  among the sources). The row leaves the store, and deleting an owner cascades to its
  sub-records.
\<close>

definition owned_by :: "company \<Rightarrow> subrecord \<Rightarrow> bool" where
  "owned_by c r = (owner_type r = ''company'' \<and> owner_id r = pk c)"

definition company_delete :: "company \<Rightarrow> store \<Rightarrow> store" where
  "company_delete c s =
     \<lparr>company_rows = filter (\<lambda>x. pk x \<noteq> pk c) (company_rows s),
      phone_numbers = filter (\<lambda>r. \<not> owned_by c r) (phone_numbers s),
      email_addresses = filter (\<lambda>r. \<not> owned_by c r) (email_addresses s),
      web_sites = filter (\<lambda>r. \<not> owned_by c r) (web_sites s),
      street_addresses = filter (\<lambda>r. \<not> owned_by c r) (street_addresses s)\<rparr>"

text \<open>
  Modelled from the spec: \<^verbatim>\<open>company.get_absolute_url()\<close> (\<^verbatim>\<open>contacts/models.py\<close>
  is not among the sources): the canonical URL of the record, identified by its primary
  key. \<^verbatim>\<open>reverse(name)\<close> is the URL routed under a name.
\<close>

datatype url = Reverse string | CompanyUrl int

definition get_absolute_url :: "company \<Rightarrow> url" where
  "get_absolute_url c = CompanyUrl (pk c)"

definition reverse :: "string \<Rightarrow> url" where
  "reverse view_name = Reverse view_name"

section \<open>Pagination\<close>

text \<open>
  \<^verbatim>\<open>django.core.paginator\<close> as the list view uses it. A page number arrives as any
  Python value: \<open>IntLike n\<close> is a value that \<^verbatim>\<open>int()\<close> converts to \<open>n\<close>,
  \<open>NotIntLike\<close> one on which \<^verbatim>\<open>int()\<close> raises \<^verbatim>\<open>TypeError\<close> or
  \<^verbatim>\<open>ValueError\<close>.
\<close>

datatype page_arg = IntLike int | NotIntLike

record 'a paginator =
  object_list :: "'a list"
  per_page :: int
  orphans :: int
  allow_empty_first_page :: bool

definition Paginator :: "'a list \<Rightarrow> int \<Rightarrow> 'a paginator" where
  "Paginator xs n =
     \<lparr>object_list = xs, per_page = n, orphans = 0, allow_empty_first_page = True\<rparr>"

definition count :: "'a paginator \<Rightarrow> int" where
  "count p = int (length (object_list p))"

text \<open>\<^verbatim>\<open>int(ceil(hits / float(per_page)))\<close>, as a ceiling division of integers.\<close>

definition num_pages :: "'a paginator \<Rightarrow> int" where
  "num_pages p =
     (if count p = 0 \<and> \<not> allow_empty_first_page p then 0
      else let hits = max 1 (count p - orphans p) in - ((- hits) div per_page p))"

definition validate_number :: "'a paginator \<Rightarrow> page_arg \<Rightarrow> exn + int" where
  "validate_number p number =
     (case number of
        NotIntLike \<Rightarrow> Inl PageNotAnInteger
      | IntLike n \<Rightarrow>
          if n < 1 then Inl EmptyPage
          else if n > num_pages p then
            (if n = 1 \<and> allow_empty_first_page p then Inr n else Inl EmptyPage)
          else Inr n)"

text \<open>
  \<^verbatim>\<open>object_list[bottom:top]\<close>. Both bounds are non-negative where the paginator
  slices: \<open>validate_number\<close> has made the page number at least 1.
\<close>

definition slice :: "'a list \<Rightarrow> int \<Rightarrow> int \<Rightarrow> 'a list" where
  "slice xs bottom top' = take (nat (top' - bottom)) (drop (nat bottom) xs)"

record 'a page =
  page_object_list :: "'a list"
  page_number :: int
  page_paginator :: "'a paginator"

definition page :: "'a paginator \<Rightarrow> page_arg \<Rightarrow> exn + 'a page" where
  "page p num =
     (case validate_number p num of
        Inl e \<Rightarrow> Inl e
      | Inr n \<Rightarrow>
          let bottom = (n - 1) * per_page p;
              top0 = bottom + per_page p;
              top' = (if top0 + orphans p \<ge> count p then count p else top0)
          in Inr \<lparr>page_object_list = slice (object_list p) bottom top',
                  page_number = n, page_paginator = p\<rparr>)"

definition has_next :: "'a page \<Rightarrow> bool" where
  "has_next pg = (page_number pg < num_pages (page_paginator pg))"

definition has_previous :: "'a page \<Rightarrow> bool" where
  "has_previous pg = (page_number pg > 1)"

definition has_other_pages :: "'a page \<Rightarrow> bool" where
  "has_other_pages pg = (has_previous pg \<or> has_next pg)"

text \<open>
  \<^verbatim>\<open>next_page_number\<close> and \<^verbatim>\<open>previous_page_number\<close> validate the neighbouring
  number and raise \<^verbatim>\<open>EmptyPage\<close> when there is no such page: the exception that the
  list view's \<^verbatim>\<open>except\<close> clauses turn into \<open>None\<close>.
\<close>

definition next_page_number :: "'a page \<Rightarrow> exn + int" where
  "next_page_number pg = validate_number (page_paginator pg) (IntLike (page_number pg + 1))"

definition previous_page_number :: "'a page \<Rightarrow> exn + int" where
  "previous_page_number pg = validate_number (page_paginator pg) (IntLike (page_number pg - 1))"

definition start_index :: "'a page \<Rightarrow> int" where
  "start_index pg =
     (if count (page_paginator pg) = 0 then 0
      else per_page (page_paginator pg) * (page_number pg - 1) + 1)"

definition end_index :: "'a page \<Rightarrow> int" where
  "end_index pg =
     (if page_number pg = num_pages (page_paginator pg) then count (page_paginator pg)
      else page_number pg * per_page (page_paginator pg))"

text \<open>
  \<^verbatim>\<open>except (EmptyPage, InvalidPage)\<close>: \<^verbatim>\<open>EmptyPage\<close> and
  \<^verbatim>\<open>PageNotAnInteger\<close> are the subclasses of \<^verbatim>\<open>InvalidPage\<close>.
\<close>

definition is_InvalidPage :: "exn \<Rightarrow> bool" where
  "is_InvalidPage e = (e = EmptyPage \<or> e = PageNotAnInteger)"

section \<open>Forms\<close>

text \<open>
  \<^verbatim>\<open>contacts/forms.py\<close> is not among the sources: the form classes are parameters
  of the views. A form bound to the submitted data and to an instance validates against
  the store and, saved, rewrites the store.
\<close>

record bound_form =
  is_valid :: "store \<Rightarrow> bool"
  save :: "store \<Rightarrow> store"

record forms =
  CompanyCreateForm_is_valid :: "querydict \<Rightarrow> store \<Rightarrow> bool"
  CompanyUpdateForm :: "querydict \<Rightarrow> company \<Rightarrow> bound_form"
  PhoneNumberFormSet :: "querydict \<Rightarrow> company \<Rightarrow> bound_form"
  EmailAddressFormSet :: "querydict \<Rightarrow> company \<Rightarrow> bound_form"
  WebSiteFormSet :: "querydict \<Rightarrow> company \<Rightarrow> bound_form"
  StreetAddressFormSet :: "querydict \<Rightarrow> company \<Rightarrow> bound_form"

text \<open>
  Modelled from the spec: \<^verbatim>\<open>CompanyCreateForm.save()\<close> (\<^verbatim>\<open>contacts/forms.py\<close> is
  not among the sources). It persists one new company, built from the submitted data
  under a primary key no stored company has, and returns it.
\<close>

definition next_pk :: "store \<Rightarrow> int" where
  "next_pk s = fold max (map pk (company_rows s)) 0 + 1"

definition field_value :: "querydict \<Rightarrow> string \<Rightarrow> string" where
  "field_value d key = (case getitem d key of Inl e \<Rightarrow> [] | Inr v \<Rightarrow> v)"

definition CompanyCreateForm_save :: "querydict \<Rightarrow> store \<Rightarrow> company \<times> store" where
  "CompanyCreateForm_save d s =
     (let c = \<lparr>pk = next_pk s, name = field_value d ''name''\<rparr>
      in (c, s\<lparr>company_rows := company_rows s @ [c]\<rparr>))"

section \<open>Responses\<close>

record list_kwvars =
  kw_object_list :: "company list"
  kw_has_next :: bool
  kw_has_previous :: bool
  kw_has_other_pages :: bool
  kw_start_index :: int
  kw_end_index :: int
  kw_previous_page_number :: "int option"
  kw_next_page_number :: "int option"

text \<open>A form handed to a template: unbound, or bound to the submitted data.\<close>

datatype form_state = Unbound | Bound querydict

datatype kwvars =
    ListKwvars list_kwvars
  | ObjectKwvars company
  | CreateKwvars form_state
  | UpdateKwvars form_state company

datatype http_response =
    HttpResponseForbidden
  | HttpResponseRedirect url
  | TemplateResponse string kwvars

text \<open>
  What a view returns: a response object, or (as \<^verbatim>\<open>create\<close> does on an invalid form)
  the class \<^verbatim>\<open>HttpResponseServerError\<close> itself, which is no response object.
\<close>

datatype returned = Response http_response | HttpResponseServerError

definition render_to_response :: "string \<Rightarrow> kwvars \<Rightarrow> http_response" where
  "render_to_response template kwvars = TemplateResponse template kwvars"

section \<open>The views\<close>

text \<open>
  \<^verbatim>\<open>try: n = f() except (EmptyPage, InvalidPage): n = None\<close>; any other exception
  propagates.
\<close>

definition or_None :: "exn + int \<Rightarrow> exn + int option" where
  "or_None r =
     (case r of
        Inr n \<Rightarrow> Inr (Some n)
      | Inl e \<Rightarrow> if is_InvalidPage e then Inr None else Inl e)"

definition list :: "request \<Rightarrow> page_arg \<Rightarrow> string \<Rightarrow> store \<Rightarrow> exn + returned" where
  "list request page_arg template s =
     (let company_list = objects_all s;
          pgtor = Paginator company_list 20
      in case (case page pgtor page_arg of
                 Inr pg \<Rightarrow> Inr pg
               | Inl e \<Rightarrow>
                   if is_InvalidPage e then page pgtor (IntLike (num_pages pgtor))
                   else Inl e) of
           Inl e \<Rightarrow> Inl e
         | Inr companies \<Rightarrow>
             (case or_None (previous_page_number companies) of
                Inl e \<Rightarrow> Inl e
              | Inr prev \<Rightarrow>
                  (case or_None (next_page_number companies) of
                     Inl e \<Rightarrow> Inl e
                   | Inr nxt \<Rightarrow>
                       Inr (Response (render_to_response template (ListKwvars
                         \<lparr>kw_object_list = page_object_list companies,
                          kw_has_next = has_next companies,
                          kw_has_previous = has_previous companies,
                          kw_has_other_pages = has_other_pages companies,
                          kw_start_index = start_index companies,
                          kw_end_index = end_index companies,
                          kw_previous_page_number = prev,
                          kw_next_page_number = nxt\<rparr>))))))"

text \<open>
  \<^verbatim>\<open>try: company = Company.objects.get(pk__iexact=pk)
  except Company.DoesNotExist: raise Http404\<close>
\<close>

definition get_or_404 :: "store \<Rightarrow> string \<Rightarrow> exn + company" where
  "get_or_404 s pk_arg =
     (case objects_get s pk_arg of
        Inr company \<Rightarrow> Inr company
      | Inl e \<Rightarrow> if e = DoesNotExist then Inl Http404 else Inl e)"

definition detail ::
  "request \<Rightarrow> string \<Rightarrow> string option \<Rightarrow> string \<Rightarrow> store \<Rightarrow> exn + returned" where
  "detail request pk_arg slug template s =
     (case get_or_404 s pk_arg of
        Inl e \<Rightarrow> Inl e
      | Inr company \<Rightarrow>
          Inr (Response (render_to_response template (ObjectKwvars company))))"

definition create :: "forms \<Rightarrow> request \<Rightarrow> string \<Rightarrow> world \<Rightarrow> (exn + returned) \<times> world" where
  "create fs request template w =
     (if \<not> has_perm (user request) ''contacts.add_company'' then
        (Inr (Response HttpResponseForbidden), w)
      else if method request = ''POST'' then
        (if CompanyCreateForm_is_valid fs (POST request) (db w) then
           (case CompanyCreateForm_save (POST request) (db w) of
              (c, s') \<Rightarrow>
                (Inr (Response (HttpResponseRedirect (get_absolute_url c))),
                 messages_success ''Company added'' (w\<lparr>db := s'\<rparr>)))
         else (Inr HttpResponseServerError, w))
      else (Inr (Response (render_to_response template (CreateKwvars Unbound))), w))"

definition update ::
  "forms \<Rightarrow> request \<Rightarrow> string \<Rightarrow> string option \<Rightarrow> string \<Rightarrow> world
     \<Rightarrow> (exn + returned) \<times> world" where
  "update fs request pk_arg slug template w =
     (if \<not> has_perm (user request) ''contacts.change_company'' then
        (Inr (Response HttpResponseForbidden), w)
      else case get_or_404 (db w) pk_arg of
        Inl e \<Rightarrow> (Inl e, w)
      | Inr company \<Rightarrow>
          if method request = ''POST'' then
            (let form = CompanyUpdateForm fs (POST request) company;
                 phone_formset = PhoneNumberFormSet fs (POST request) company;
                 email_formset = EmailAddressFormSet fs (POST request) company;
                 website_formset = WebSiteFormSet fs (POST request) company;
                 address_formset = StreetAddressFormSet fs (POST request) company
             in if is_valid form (db w) \<and> is_valid phone_formset (db w) \<and>
                   is_valid email_formset (db w) \<and>
                   is_valid website_formset (db w) \<and> is_valid address_formset (db w)
                then
                  (let s1 = save form (db w);
                       s2 = save phone_formset s1;
                       s3 = save email_formset s2;
                       s4 = save website_formset s3;
                       s5 = save address_formset s4
                   in (Inr (Response (HttpResponseRedirect (get_absolute_url company))),
                       messages_success ''Company updated'' (w\<lparr>db := s5\<rparr>)))
                else
                  (Inr (Response (render_to_response template
                     (UpdateKwvars (Bound (POST request)) company))), w))
          else
            (Inr (Response (render_to_response template (UpdateKwvars Unbound company))), w))"

definition delete ::
  "request \<Rightarrow> string \<Rightarrow> string option \<Rightarrow> string \<Rightarrow> world \<Rightarrow> (exn + returned) \<times> world" where
  "delete request pk_arg slug template w =
     (if \<not> has_perm (user request) ''contacts.delete_company'' then
        (Inr (Response HttpResponseForbidden), w)
      else case get_or_404 (db w) pk_arg of
        Inl e \<Rightarrow> (Inl e, w)
      | Inr company \<Rightarrow>
          if method request = ''POST'' then
            (let new_data = POST request
             in case getitem new_data ''delete_company'' of
                  Inl e \<Rightarrow> (Inl e, w)
                | Inr v \<Rightarrow>
                    if v = ''Yes'' then
                      (Inr (Response (HttpResponseRedirect (reverse ''contacts_company_list''))),
                       messages_success ''Company deleted''
                         (w\<lparr>db := company_delete company (db w)\<rparr>))
                    else
                      (Inr (Response (HttpResponseRedirect (get_absolute_url company))), w))
          else (Inr (Response (render_to_response template (ObjectKwvars company))), w))"

section \<open>Sample data\<close>

definition sample_store :: store where
  "sample_store =
     \<lparr>company_rows = [\<lparr>pk = 1, name = ''Acme''\<rparr>, \<lparr>pk = 2, name = ''Globex''\<rparr>],
      phone_numbers = [\<lparr>owner_type = ''company'', owner_id = 1, content = ''555-0100''\<rparr>],
      email_addresses = [],
      web_sites = [],
      street_addresses = []\<rparr>"

definition sample_world :: world where
  "sample_world = \<lparr>db = sample_store, messages = []\<rparr>"

text \<open>Forty-five companies: three pages, the last one with five records.\<close>

definition paged_store :: store where
  "paged_store =
     \<lparr>company_rows = map (\<lambda>i. \<lparr>pk = i, name = ''Company''\<rparr>) [1..45],
      phone_numbers = [],
      email_addresses = [],
      web_sites = [],
      street_addresses = []\<rparr>"

text \<open>A store with no company: one page, with nothing on it.\<close>

definition empty_store :: store where
  "empty_store =
     \<lparr>company_rows = [],
      phone_numbers = [],
      email_addresses = [],
      web_sites = [],
      street_addresses = []\<rparr>"

text \<open>
  Forms that require a name, rename the company, and add the submitted phone number; the
  other three formsets accept everything and save nothing.
\<close>

definition sample_forms :: forms where
  "sample_forms =
     \<lparr>CompanyCreateForm_is_valid = (\<lambda>d s. field_value d ''name'' \<noteq> []),
      CompanyUpdateForm = (\<lambda>d c.
        \<lparr>is_valid = (\<lambda>s. field_value d ''name'' \<noteq> []),
         save = (\<lambda>s. s\<lparr>company_rows :=
           map (\<lambda>x. if pk x = pk c then x\<lparr>name := field_value d ''name''\<rparr> else x)
             (company_rows s)\<rparr>)\<rparr>),
      PhoneNumberFormSet = (\<lambda>d c.
        \<lparr>is_valid = (\<lambda>s. True),
         save = (\<lambda>s. s\<lparr>phone_numbers := phone_numbers s @
           [\<lparr>owner_type = ''company'', owner_id = pk c,
             content = field_value d ''phone''\<rparr>]\<rparr>)\<rparr>),
      EmailAddressFormSet = (\<lambda>d c. \<lparr>is_valid = (\<lambda>s. True), save = (\<lambda>s. s)\<rparr>),
      WebSiteFormSet = (\<lambda>d c. \<lparr>is_valid = (\<lambda>s. True), save = (\<lambda>s. s)\<rparr>),
      StreetAddressFormSet = (\<lambda>d c. \<lparr>is_valid = (\<lambda>s. True), save = (\<lambda>s. s)\<rparr>)\<rparr>"

definition sample_request :: "string list \<Rightarrow> string \<Rightarrow> querydict \<Rightarrow> request" where
  "sample_request perms m d = \<lparr>user = \<lparr>permissions = perms\<rparr>, method = m, POST = d\<rparr>"

section \<open>Lookups\<close>

lemma objects_get_InrD:
  "objects_get s a = Inr c \<Longrightarrow>
     filter (\<lambda>x. iexact (str_of_int (pk x)) a) (company_rows s) = [c]"
  by (auto simp: objects_get_def split: list.splits)

lemma objects_get_absent:
  "\<not> list_ex (\<lambda>c. iexact (str_of_int (pk c)) a) (company_rows s) \<Longrightarrow>
     objects_get s a = Inl DoesNotExist"
  by (auto simp: objects_get_def list_ex_iff filter_empty_conv split: list.splits)

lemma get_or_404_absent:
  "\<not> list_ex (\<lambda>c. iexact (str_of_int (pk c)) a) (company_rows s) \<Longrightarrow>
     get_or_404 s a = Inl Http404"
  by (simp add: get_or_404_def objects_get_absent)

lemma get_or_404_Inr:
  "objects_get s a = Inr c \<Longrightarrow> get_or_404 s a = Inr c"
  by (simp add: get_or_404_def)

lemma getitem_absent:
  "key \<notin> fst ` set d \<Longrightarrow> getitem d key = Inl (MultiValueDictKeyError key)"
proof -
  assume "key \<notin> fst ` set d"
  then have "filter (\<lambda>kv. fst kv = key) d = []"
    by (auto simp: filter_empty_conv)
  then show ?thesis by (simp add: getitem_def)
qed

lemma objects_get_after_delete:
  assumes "objects_get s a = Inr c"
  shows "objects_get (company_delete c s) a = Inl DoesNotExist"
proof -
  let ?P = "\<lambda>x. iexact (str_of_int (pk x)) a"
  have one: "filter ?P (company_rows s) = [c]"
    using assms by (rule objects_get_InrD)
  have "filter ?P (filter (\<lambda>x. pk x \<noteq> pk c) (company_rows s)) = []"
  proof -
    have "filter ?P (filter (\<lambda>x. pk x \<noteq> pk c) (company_rows s))
            = filter (\<lambda>x. pk x \<noteq> pk c) (filter ?P (company_rows s))"
      by (simp add: conj_commute)
    also have "\<dots> = []" by (simp add: one)
    finally show ?thesis .
  qed
  then show ?thesis by (simp add: objects_get_def company_delete_def)
qed

lemma fold_max_ge: "(m::int) \<le> fold max xs m"
  by (induction xs arbitrary: m) (auto intro: order_trans [OF max.cobounded2])

lemma fold_max_mem: "x \<in> set xs \<Longrightarrow> (x::int) \<le> fold max xs m"
proof (induction xs arbitrary: m)
  case Nil
  then show ?case by simp
next
  case (Cons y ys)
  show ?case
  proof (cases "x = y")
    case True
    have "y \<le> max y m" by simp
    also have "\<dots> \<le> fold max ys (max y m)" by (rule fold_max_ge)
    finally show ?thesis using True by simp
  next
    case False
    with Cons show ?thesis by simp
  qed
qed

lemma next_pk_fresh: "next_pk s \<notin> pk ` set (company_rows s)"
proof
  assume "next_pk s \<in> pk ` set (company_rows s)"
  then have "next_pk s \<in> set (map pk (company_rows s))" by simp
  then have "next_pk s \<le> fold max (map pk (company_rows s)) 0"
    by (rule fold_max_mem)
  then show False by (simp add: next_pk_def)
qed

section \<open>Pagination of the company list\<close>

lemma count_Paginator: "count (Paginator xs n) = int (length xs)"
  by (simp add: count_def Paginator_def)

lemma num_pages_Paginator:
  "num_pages (Paginator xs 20) = - ((- max 1 (int (length xs))) div 20)"
  by (simp add: num_pages_def count_def Paginator_def)

lemma num_pages_bounds:
  "20 * (num_pages (Paginator xs 20) - 1) < max 1 (int (length xs)) \<and>
   max 1 (int (length xs)) \<le> 20 * num_pages (Paginator xs 20)"
  unfolding num_pages_Paginator by arith

lemma num_pages_ge1: "1 \<le> num_pages (Paginator xs 20)"
  using num_pages_bounds [of xs] by arith

lemma validate_number_valid:
  "1 \<le> n \<Longrightarrow> n \<le> num_pages (Paginator xs 20) \<Longrightarrow>
     validate_number (Paginator xs 20) (IntLike n) = Inr n"
  by (simp add: validate_number_def)

lemma validate_number_invalid:
  "n < 1 \<or> num_pages (Paginator xs 20) < n \<Longrightarrow>
     validate_number (Paginator xs 20) (IntLike n) = Inl EmptyPage"
  using num_pages_ge1 [of xs] by (auto simp: validate_number_def)

lemma validate_number_NotIntLike:
  "validate_number p NotIntLike = Inl PageNotAnInteger"
  by (simp add: validate_number_def)

lemma Paginator_fields:
  "object_list (Paginator xs n) = xs" "per_page (Paginator xs n) = n"
  "orphans (Paginator xs n) = 0" "allow_empty_first_page (Paginator xs n)"
  by (simp_all add: Paginator_def)

lemma take_drop_all:
  assumes "0 \<le> b" and "int (length xs) \<le> b + 20"
  shows "take (nat (int (length xs) - b)) (drop (nat b) xs) = take 20 (drop (nat b) xs)"
proof -
  have "length (drop (nat b) xs) \<le> nat (int (length xs) - b)"
    using assms by simp
  moreover have "length (drop (nat b) xs) \<le> 20"
    using assms by simp
  ultimately show ?thesis by simp
qed

lemma page_at:
  "validate_number p num = Inr n \<Longrightarrow>
     page p num =
       Inr \<lparr>page_object_list =
              slice (object_list p) ((n - 1) * per_page p)
                (if count p \<le> (n - 1) * per_page p + per_page p + orphans p then count p
                 else (n - 1) * per_page p + per_page p),
            page_number = n, page_paginator = p\<rparr>"
  by (simp add: page_def Let_def)

lemma slice_page:
  assumes "1 \<le> n"
  shows "slice xs ((n - 1) * 20)
           (if int (length xs) \<le> (n - 1) * 20 + 20 + 0 then int (length xs)
            else (n - 1) * 20 + 20)
         = take 20 (drop (nat (20 * (n - 1))) xs)"
proof (cases "int (length xs) \<le> (n - 1) * 20 + 20")
  case True
  have b: "0 \<le> (n - 1) * 20" using assms by simp
  show ?thesis
    using True take_drop_all [OF b True] by (simp add: slice_def mult.commute)
next
  case False
  then show ?thesis by (simp add: slice_def mult.commute)
qed

lemma page_valid:
  assumes "1 \<le> n" and "n \<le> num_pages (Paginator xs 20)"
  shows "page (Paginator xs 20) (IntLike n) =
           Inr \<lparr>page_object_list = take 20 (drop (nat (20 * (n - 1))) xs),
                page_number = n, page_paginator = Paginator xs 20\<rparr>"
  unfolding page_at [OF validate_number_valid [OF assms]]
    Paginator_fields count_Paginator slice_page [OF assms(1)] ..

lemma page_invalid:
  "n < 1 \<or> num_pages (Paginator xs 20) < n \<Longrightarrow>
     page (Paginator xs 20) (IntLike n) = Inl EmptyPage"
  by (simp add: page_def validate_number_invalid)

lemma page_NotIntLike: "page p NotIntLike = Inl PageNotAnInteger"
  by (simp add: page_def validate_number_NotIntLike)


lemma validate_number_Paginator:
  "validate_number (Paginator xs 20) (IntLike k) =
     (if 1 \<le> k \<and> k \<le> num_pages (Paginator xs 20) then Inr k else Inl EmptyPage)"
  using validate_number_valid [of k xs] validate_number_invalid [of k xs] by auto

lemma or_None_validate:
  "or_None (validate_number (Paginator xs 20) (IntLike k)) =
     Inr (if 1 \<le> k \<and> k \<le> num_pages (Paginator xs 20) then Some k else None)"
  by (simp add: validate_number_Paginator or_None_def is_InvalidPage_def)

lemma list_valid:
  assumes "1 \<le> n" and "n \<le> num_pages (Paginator (objects_all s) 20)"
  shows "list request (IntLike n) template s =
           Inr (Response (TemplateResponse template (ListKwvars
             \<lparr>kw_object_list = take 20 (drop (nat (20 * (n - 1))) (objects_all s)),
              kw_has_next = (n < num_pages (Paginator (objects_all s) 20)),
              kw_has_previous = (1 < n),
              kw_has_other_pages = (1 < n \<or> n < num_pages (Paginator (objects_all s) 20)),
              kw_start_index = (if objects_all s = [] then 0 else 20 * (n - 1) + 1),
              kw_end_index = (if n = num_pages (Paginator (objects_all s) 20)
                              then int (length (objects_all s)) else n * 20),
              kw_previous_page_number = (if 1 < n then Some (n - 1) else None),
              kw_next_page_number = (if n < num_pages (Paginator (objects_all s) 20)
                                     then Some (n + 1) else None)\<rparr>)))"
proof -
  let ?P = "Paginator (objects_all s) 20"
  let ?pg = "\<lparr>page_object_list = take 20 (drop (nat (20 * (n - 1))) (objects_all s)),
              page_number = n, page_paginator = ?P\<rparr>"
  have pg: "page ?P (IntLike n) = Inr ?pg"
    using assms by (rule page_valid)
  have prev: "or_None (previous_page_number ?pg) = Inr (if 1 < n then Some (n - 1) else None)"
    using assms by (simp add: previous_page_number_def or_None_validate)
  have nxt: "or_None (next_page_number ?pg)
               = Inr (if n < num_pages ?P then Some (n + 1) else None)"
    using assms by (simp add: next_page_number_def or_None_validate)
  have flags: "has_next ?pg = (n < num_pages ?P)" "has_previous ?pg = (1 < n)"
    "has_other_pages ?pg = (1 < n \<or> n < num_pages ?P)"
    by (simp_all add: has_next_def has_previous_def has_other_pages_def)
  have idx: "start_index ?pg = (if objects_all s = [] then 0 else 20 * (n - 1) + 1)"
    "end_index ?pg = (if n = num_pages ?P then int (length (objects_all s)) else n * 20)"
    by (simp_all add: start_index_def end_index_def count_Paginator Paginator_fields)
  have obj: "page_object_list ?pg = take 20 (drop (nat (20 * (n - 1))) (objects_all s))"
    by simp
  show ?thesis
    by (simp only: list_def Let_def pg sum.case prev nxt flags idx obj render_to_response_def)
qed

lemma list_invalid:
  assumes "page_arg = NotIntLike \<or>
           (\<exists>k. page_arg = IntLike k \<and> (k \<le> 0 \<or> num_pages (Paginator (objects_all s) 20) < k))"
  shows "list request page_arg template s =
           list request (IntLike (num_pages (Paginator (objects_all s) 20))) template s"
proof -
  let ?P = "Paginator (objects_all s) 20"
  have "page ?P page_arg = Inl EmptyPage \<or> page ?P page_arg = Inl PageNotAnInteger"
    using assms page_invalid [of _ "objects_all s"] page_NotIntLike [of ?P] by auto
  moreover have "\<exists>pg. page ?P (IntLike (num_pages ?P)) = Inr pg"
    using page_valid [OF num_pages_ge1 order_refl] by blast
  ultimately show ?thesis
    by (auto simp: list_def Let_def is_InvalidPage_def)
qed

lemma filter_upto_range:
  assumes "1 \<le> a" and "b \<le> c"
  shows "filter (\<lambda>i. a \<le> i \<and> i \<le> b) [1..c] = [a..b]"
proof (rule sorted_distinct_set_unique)
  show "sorted (filter (\<lambda>i. a \<le> i \<and> i \<le> b) [1..c])"
    by (rule sorted_filter [where f = "\<lambda>x. x", simplified]) simp
  show "set (filter (\<lambda>i. a \<le> i \<and> i \<le> b) [1..c]) = set [a..b]"
    using assms by auto
qed simp_all

lemma map_nth_upto:
  assumes "0 \<le> b" and "e \<le> int (length xs)"
  shows "map (\<lambda>i. xs ! nat (i - 1)) [b + 1..e] = take (nat (e - b)) (drop (nat b) xs)"
proof (rule nth_equalityI)
  show "length (map (\<lambda>i. xs ! nat (i - 1)) [b + 1..e])
          = length (take (nat (e - b)) (drop (nat b) xs))"
    using assms by simp
next
  fix k
  assume "k < length (map (\<lambda>i. xs ! nat (i - 1)) [b + 1..e])"
  then have k: "int k < e - b" by simp
  then have "[b + 1..e] ! k = b + 1 + int k" by simp
  moreover have "nat (b + int k) = nat b + k"
    using assms by (simp add: nat_add_distrib)
  ultimately show "map (\<lambda>i. xs ! nat (i - 1)) [b + 1..e] ! k
                     = take (nat (e - b)) (drop (nat b) xs) ! k"
    using k assms by simp
qed

lemma shown_positions:
  assumes "1 \<le> n" and "n \<le> num_pages (Paginator xs 20)"
  shows "take 20 (drop (nat (20 * (n - 1))) xs) =
           map (\<lambda>i. xs ! nat (i - 1))
             (filter (\<lambda>i. (if xs = [] then 0 else 20 * (n - 1) + 1) \<le> i \<and>
                           i \<le> (if n = num_pages (Paginator xs 20) then int (length xs)
                                 else n * 20))
                [1..int (length xs)])"
proof (cases "xs = []")
  case True
  then show ?thesis by simp
next
  case False
  let ?N = "num_pages (Paginator xs 20)"
  let ?L = "int (length xs)"
  let ?b = "20 * (n - 1)"
  let ?e = "if n = ?N then ?L else n * 20"
  have L: "1 \<le> ?L" using False by (cases xs) simp_all
  have bounds: "20 * (?N - 1) < ?L" "?L \<le> 20 * ?N"
    using num_pages_bounds [of xs] L by simp_all
  have e: "?e \<le> ?L" "?e - ?b \<le> 20" "?L - ?b \<le> 20 \<longrightarrow> ?e = ?L" "20 < ?L - ?b \<longrightarrow> ?e - ?b = 20"
    using assms bounds by auto
  have b: "0 \<le> ?b" using assms by simp
  have "filter (\<lambda>i. ?b + 1 \<le> i \<and> i \<le> ?e) [1..?L] = [?b + 1..?e]"
    using b e(1) by (intro filter_upto_range) simp_all
  then have "map (\<lambda>i. xs ! nat (i - 1)) (filter (\<lambda>i. ?b + 1 \<le> i \<and> i \<le> ?e) [1..?L])
               = take (nat (?e - ?b)) (drop (nat ?b) xs)"
    using map_nth_upto [OF b e(1)] by simp
  also have "\<dots> = take 20 (drop (nat ?b) xs)"
  proof (cases "?L - ?b \<le> 20")
    case True
    with e(3) have "?e = ?L" by simp
    then show ?thesis using take_drop_all [OF b] True by simp
  next
    case False
    with e(4) have "?e - ?b = 20" by simp
    then show ?thesis by simp
  qed
  finally show ?thesis using False by simp
qed


section \<open>The claims\<close>

text \<open>
  C9. For every primary key and every pair of slug values (including \<open>None\<close>), the
  detail view produces the same result: the slug takes no part in the lookup or in the
  response.
\<close>

theorem detail_ignores_slug:
  "detail request pk_arg slug1 template s = detail request pk_arg slug2 template s"
  by (simp add: detail_def)

text \<open>
  C4. A POST to the create view by a user with the permission, whose form does not
  validate, returns the class \<^verbatim>\<open>HttpResponseServerError\<close> itself: no response object,
  and in particular no re-rendered form. Nothing is stored.
\<close>

theorem create_invalid_returns_class:
  assumes "has_perm (user request) ''contacts.add_company''"
    and "method request = ''POST''"
    and "\<not> CompanyCreateForm_is_valid fs (POST request) (db w)"
  shows "create fs request template w = (Inr HttpResponseServerError, w) \<and>
         (\<forall>r. fst (create fs request template w) \<noteq> Inr (Response r))"
  using assms by (simp add: create_def)

theorem create_invalid_returns_class_witness:
  "has_perm (user (sample_request [''contacts.add_company''] ''POST'' [(''phone'', ''555'')]))
     ''contacts.add_company'' \<and>
   method (sample_request [''contacts.add_company''] ''POST'' [(''phone'', ''555'')]) = ''POST'' \<and>
   \<not> CompanyCreateForm_is_valid sample_forms
       (POST (sample_request [''contacts.add_company''] ''POST'' [(''phone'', ''555'')]))
       (db sample_world) \<and>
   create sample_forms (sample_request [''contacts.add_company''] ''POST'' [(''phone'', ''555'')])
     ''contacts/company/create.html'' sample_world
     = (Inr HttpResponseServerError, sample_world)"
proof -
  let ?R = "sample_request [''contacts.add_company''] ''POST'' [(''phone'', ''555'')]"
  have p: "has_perm (user ?R) ''contacts.add_company''" by code_simp
  have m: "method ?R = ''POST''" by code_simp
  have v: "\<not> CompanyCreateForm_is_valid sample_forms (POST ?R) (db sample_world)"
    by code_simp
  show ?thesis
    using create_invalid_returns_class [OF p m v] p m v by blast
qed

text \<open>
  C5. For every primary key that no stored company matches, the detail view, and the
  update and delete views for a user with their permission, raise \<^verbatim>\<open>Http404\<close>, and
  nothing else; the store is as it was.
\<close>

theorem missing_pk_not_found:
  assumes "\<not> list_ex (\<lambda>c. iexact (str_of_int (pk c)) pk_arg) (company_rows (db w))"
  shows "detail request pk_arg slug template (db w) = Inl Http404 \<and>
         (has_perm (user request) ''contacts.change_company'' \<longrightarrow>
            update fs request pk_arg slug template w = (Inl Http404, w)) \<and>
         (has_perm (user request) ''contacts.delete_company'' \<longrightarrow>
            delete request pk_arg slug template w = (Inl Http404, w))"
  using assms by (simp add: detail_def update_def delete_def get_or_404_absent)

theorem missing_pk_not_found_witness:
  "\<not> list_ex (\<lambda>c. iexact (str_of_int (pk c)) ''3'') (company_rows (db sample_world)) \<and>
   has_perm (user (sample_request [''contacts.change_company'', ''contacts.delete_company'']
     ''POST'' [(''delete_company'', ''Yes'')])) ''contacts.change_company'' \<and>
   has_perm (user (sample_request [''contacts.change_company'', ''contacts.delete_company'']
     ''POST'' [(''delete_company'', ''Yes'')])) ''contacts.delete_company'' \<and>
   detail (sample_request [''contacts.change_company'', ''contacts.delete_company'']
     ''POST'' [(''delete_company'', ''Yes'')]) ''3'' None ''contacts/company/detail.html''
     (db sample_world) = Inl Http404 \<and>
   update sample_forms (sample_request [''contacts.change_company'', ''contacts.delete_company'']
     ''POST'' [(''delete_company'', ''Yes'')]) ''3'' None ''contacts/company/update.html''
     sample_world = (Inl Http404, sample_world) \<and>
   delete (sample_request [''contacts.change_company'', ''contacts.delete_company'']
     ''POST'' [(''delete_company'', ''Yes'')]) ''3'' None ''contacts/company/delete.html''
     sample_world = (Inl Http404, sample_world)"
proof -
  let ?R = "sample_request [''contacts.change_company'', ''contacts.delete_company'']
     ''POST'' [(''delete_company'', ''Yes'')]"
  have a: "\<not> list_ex (\<lambda>c. iexact (str_of_int (pk c)) ''3'') (company_rows (db sample_world))"
    by code_simp
  have p: "has_perm (user ?R) ''contacts.change_company''" by code_simp
  have q: "has_perm (user ?R) ''contacts.delete_company''" by code_simp
  show ?thesis
    using missing_pk_not_found [OF a, of ?R] a p q by blast
qed

text \<open>
  C6. A user without \<^verbatim>\<open>contacts.add_company\<close>, \<^verbatim>\<open>contacts.change_company\<close> or
  \<^verbatim>\<open>contacts.delete_company\<close> gets a forbidden response from, respectively, the create,
  update and delete views, whatever else the request holds, and neither the store nor the
  notifications change.
\<close>

theorem no_permission_forbidden:
  "(\<not> has_perm (user request) ''contacts.add_company'' \<longrightarrow>
      create fs request template w = (Inr (Response HttpResponseForbidden), w)) \<and>
   (\<not> has_perm (user request) ''contacts.change_company'' \<longrightarrow>
      update fs request pk_arg slug template w = (Inr (Response HttpResponseForbidden), w)) \<and>
   (\<not> has_perm (user request) ''contacts.delete_company'' \<longrightarrow>
      delete request pk_arg slug template w = (Inr (Response HttpResponseForbidden), w))"
  by (simp add: create_def update_def delete_def)

theorem no_permission_forbidden_witness:
  "\<not> has_perm (user (sample_request [] ''POST''
       [(''name'', ''Initech''), (''delete_company'', ''Yes'')])) ''contacts.add_company'' \<and>
   \<not> has_perm (user (sample_request [] ''POST''
       [(''name'', ''Initech''), (''delete_company'', ''Yes'')])) ''contacts.change_company'' \<and>
   \<not> has_perm (user (sample_request [] ''POST''
       [(''name'', ''Initech''), (''delete_company'', ''Yes'')])) ''contacts.delete_company'' \<and>
   create sample_forms (sample_request [] ''POST''
       [(''name'', ''Initech''), (''delete_company'', ''Yes'')])
     ''contacts/company/create.html'' sample_world
     = (Inr (Response HttpResponseForbidden), sample_world) \<and>
   update sample_forms (sample_request [] ''POST''
       [(''name'', ''Initech''), (''delete_company'', ''Yes'')])
     ''1'' None ''contacts/company/update.html'' sample_world
     = (Inr (Response HttpResponseForbidden), sample_world) \<and>
   delete (sample_request [] ''POST''
       [(''name'', ''Initech''), (''delete_company'', ''Yes'')])
     ''1'' None ''contacts/company/delete.html'' sample_world
     = (Inr (Response HttpResponseForbidden), sample_world)"
proof -
  let ?R = "sample_request [] ''POST'' [(''name'', ''Initech''), (''delete_company'', ''Yes'')]"
  have a: "\<not> has_perm (user ?R) ''contacts.add_company''" by code_simp
  have c: "\<not> has_perm (user ?R) ''contacts.change_company''" by code_simp
  have d: "\<not> has_perm (user ?R) ''contacts.delete_company''" by code_simp
  show ?thesis
    using no_permission_forbidden [of ?R sample_forms _ sample_world] a c d by blast
qed

text \<open>
  C10. A POST to the delete view by a user with the permission, for a stored company,
  whose data has no \<^verbatim>\<open>delete_company\<close> key, raises the key-lookup error
  \<^verbatim>\<open>MultiValueDictKeyError\<close> and returns no response; the store is as it was.
\<close>

theorem delete_post_without_field_raises:
  assumes "has_perm (user request) ''contacts.delete_company''"
    and "objects_get (db w) pk_arg = Inr company"
    and "method request = ''POST''"
    and "''delete_company'' \<notin> fst ` set (POST request)"
  shows "delete request pk_arg slug template w =
           (Inl (MultiValueDictKeyError ''delete_company''), w)"
  using assms by (simp add: delete_def get_or_404_Inr getitem_absent)

theorem delete_post_without_field_raises_witness:
  "has_perm (user (sample_request [''contacts.delete_company''] ''POST'' [(''confirm'', ''Yes'')]))
     ''contacts.delete_company'' \<and>
   objects_get (db sample_world) ''1'' = Inr \<lparr>pk = 1, name = ''Acme''\<rparr> \<and>
   method (sample_request [''contacts.delete_company''] ''POST'' [(''confirm'', ''Yes'')])
     = ''POST'' \<and>
   ''delete_company'' \<notin> fst ` set (POST (sample_request [''contacts.delete_company'']
     ''POST'' [(''confirm'', ''Yes'')])) \<and>
   delete (sample_request [''contacts.delete_company''] ''POST'' [(''confirm'', ''Yes'')])
     ''1'' None ''contacts/company/delete.html'' sample_world
     = (Inl (MultiValueDictKeyError ''delete_company''), sample_world)"
proof -
  let ?R = "sample_request [''contacts.delete_company''] ''POST'' [(''confirm'', ''Yes'')]"
  have p: "has_perm (user ?R) ''contacts.delete_company''" by code_simp
  have g: "objects_get (db sample_world) ''1'' = Inr \<lparr>pk = 1, name = ''Acme''\<rparr>"
    by code_simp
  have m: "method ?R = ''POST''" by code_simp
  have k: "''delete_company'' \<notin> fst ` set (POST ?R)"
    by (simp add: sample_request_def)
  show ?thesis
    using delete_post_without_field_raises [OF p g m k] p g m k by blast
qed

text \<open>
  C2. On a POST to the delete view by a user with the permission, for a stored company:
  when the submitted \<^verbatim>\<open>delete_company\<close> is exactly \<^verbatim>\<open>Yes\<close> the company is deleted, a
  success notification is queued and the view redirects to the list; for any other
  submitted value nothing changes and the view redirects to the company's own URL. The
  company is gone afterwards if and only if the field was \<^verbatim>\<open>Yes\<close>.
\<close>

theorem delete_only_on_yes:
  assumes "has_perm (user request) ''contacts.delete_company''"
    and "objects_get (db w) pk_arg = Inr company"
    and "method request = ''POST''"
  shows "(getitem (POST request) ''delete_company'' = Inr ''Yes'' \<longrightarrow>
            delete request pk_arg slug template w =
              (Inr (Response (HttpResponseRedirect (reverse ''contacts_company_list''))),
               \<lparr>db = company_delete company (db w),
                messages = messages w @ [(''success'', ''Company deleted'')]\<rparr>)) \<and>
         (\<forall>v. getitem (POST request) ''delete_company'' = Inr v \<and> v \<noteq> ''Yes'' \<longrightarrow>
            delete request pk_arg slug template w =
              (Inr (Response (HttpResponseRedirect (get_absolute_url company))), w)) \<and>
         (objects_get (db (snd (delete request pk_arg slug template w))) pk_arg
            = Inl DoesNotExist
          \<longleftrightarrow> getitem (POST request) ''delete_company'' = Inr ''Yes'')"
proof -
  note g = get_or_404_Inr [OF assms(2)]
  show ?thesis
  proof (cases "getitem (POST request) ''delete_company''")
    case (Inl e)
    then show ?thesis
      using assms g by (simp add: delete_def)
  next
    case (Inr v)
    show ?thesis
    proof (cases "v = ''Yes''")
      case True
      then show ?thesis
        using assms g Inr objects_get_after_delete [OF assms(2)]
        by (simp add: delete_def messages_success_def)
    next
      case False
      then show ?thesis
        using assms g Inr by (simp add: delete_def)
    qed
  qed
qed

theorem delete_only_on_yes_witness:
  "has_perm (user (sample_request [''contacts.delete_company''] ''POST''
     [(''delete_company'', ''Yes'')])) ''contacts.delete_company'' \<and>
   objects_get (db sample_world) ''1'' = Inr \<lparr>pk = 1, name = ''Acme''\<rparr> \<and>
   method (sample_request [''contacts.delete_company''] ''POST''
     [(''delete_company'', ''Yes'')]) = ''POST'' \<and>
   getitem (POST (sample_request [''contacts.delete_company''] ''POST''
     [(''delete_company'', ''Yes'')])) ''delete_company'' = Inr ''Yes'' \<and>
   delete (sample_request [''contacts.delete_company''] ''POST''
       [(''delete_company'', ''Yes'')]) ''1'' None ''contacts/company/delete.html'' sample_world
     = (Inr (Response (HttpResponseRedirect (Reverse ''contacts_company_list''))),
        \<lparr>db = \<lparr>company_rows = [\<lparr>pk = 2, name = ''Globex''\<rparr>], phone_numbers = [],
                email_addresses = [], web_sites = [], street_addresses = []\<rparr>,
         messages = [(''success'', ''Company deleted'')]\<rparr>) \<and>
   has_perm (user (sample_request [''contacts.delete_company''] ''POST''
     [(''delete_company'', ''yes'')])) ''contacts.delete_company'' \<and>
   method (sample_request [''contacts.delete_company''] ''POST''
     [(''delete_company'', ''yes'')]) = ''POST'' \<and>
   getitem (POST (sample_request [''contacts.delete_company''] ''POST''
     [(''delete_company'', ''yes'')])) ''delete_company'' = Inr ''yes'' \<and>
   delete (sample_request [''contacts.delete_company''] ''POST''
       [(''delete_company'', ''yes'')]) ''1'' None ''contacts/company/delete.html'' sample_world
     = (Inr (Response (HttpResponseRedirect (CompanyUrl 1))), sample_world)"
proof -
  let ?Y = "sample_request [''contacts.delete_company''] ''POST'' [(''delete_company'', ''Yes'')]"
  let ?N = "sample_request [''contacts.delete_company''] ''POST'' [(''delete_company'', ''yes'')]"
  let ?T = "''contacts/company/delete.html''"
  have g: "objects_get (db sample_world) ''1'' = Inr \<lparr>pk = 1, name = ''Acme''\<rparr>"
    by code_simp
  have pY: "has_perm (user ?Y) ''contacts.delete_company''" by code_simp
  have mY: "method ?Y = ''POST''" by code_simp
  have fY: "getitem (POST ?Y) ''delete_company'' = Inr ''Yes''" by code_simp
  have pN: "has_perm (user ?N) ''contacts.delete_company''" by code_simp
  have mN: "method ?N = ''POST''" by code_simp
  have fN: "getitem (POST ?N) ''delete_company'' = Inr ''yes''" by code_simp
  have ne: "''yes'' \<noteq> ''Yes''" by simp
  have eY: "\<lparr>db = company_delete \<lparr>pk = 1, name = ''Acme''\<rparr> (db sample_world),
              messages = messages sample_world @ [(''success'', ''Company deleted'')]\<rparr>
           = \<lparr>db = \<lparr>company_rows = [\<lparr>pk = 2, name = ''Globex''\<rparr>], phone_numbers = [],
                     email_addresses = [], web_sites = [], street_addresses = []\<rparr>,
              messages = [(''success'', ''Company deleted'')]\<rparr>"
    by code_simp
  have eR: "reverse ''contacts_company_list'' = Reverse ''contacts_company_list''"
    by (simp add: reverse_def)
  have eN: "get_absolute_url \<lparr>pk = 1, name = ''Acme''\<rparr> = CompanyUrl 1"
    by (simp add: get_absolute_url_def)
  from delete_only_on_yes [OF pY g mY, of None ?T] fY
  have dY: "delete ?Y ''1'' None ?T sample_world =
              (Inr (Response (HttpResponseRedirect (reverse ''contacts_company_list''))),
               \<lparr>db = company_delete \<lparr>pk = 1, name = ''Acme''\<rparr> (db sample_world),
                messages = messages sample_world @ [(''success'', ''Company deleted'')]\<rparr>)"
    by blast
  from delete_only_on_yes [OF pN g mN, of None ?T] fN ne
  have dN: "delete ?N ''1'' None ?T sample_world =
              (Inr (Response (HttpResponseRedirect
                 (get_absolute_url \<lparr>pk = 1, name = ''Acme''\<rparr>))), sample_world)"
    by blast
  show ?thesis
    using g pY mY fY pN mN fN dY [unfolded eY eR] dN [unfolded eN] by blast
qed

text \<open>
  C1. On a POST to the update view by a user with the permission, for a stored company:
  when the main form and the phone, email, website and address formsets all validate, the
  five are saved in that order, a success notification is queued and the view redirects to
  the company's own URL; when any of the five does not validate, none is saved: the store
  and the notifications are as they were.
\<close>

theorem update_all_or_nothing:
  assumes "has_perm (user request) ''contacts.change_company''"
    and "objects_get (db w) pk_arg = Inr company"
    and "method request = ''POST''"
  shows "(is_valid (CompanyUpdateForm fs (POST request) company) (db w) \<and>
          is_valid (PhoneNumberFormSet fs (POST request) company) (db w) \<and>
          is_valid (EmailAddressFormSet fs (POST request) company) (db w) \<and>
          is_valid (WebSiteFormSet fs (POST request) company) (db w) \<and>
          is_valid (StreetAddressFormSet fs (POST request) company) (db w) \<longrightarrow>
            update fs request pk_arg slug template w =
              (Inr (Response (HttpResponseRedirect (get_absolute_url company))),
               \<lparr>db = save (StreetAddressFormSet fs (POST request) company)
                       (save (WebSiteFormSet fs (POST request) company)
                         (save (EmailAddressFormSet fs (POST request) company)
                           (save (PhoneNumberFormSet fs (POST request) company)
                             (save (CompanyUpdateForm fs (POST request) company) (db w))))),
                messages = messages w @ [(''success'', ''Company updated'')]\<rparr>)) \<and>
         (\<not> (is_valid (CompanyUpdateForm fs (POST request) company) (db w) \<and>
             is_valid (PhoneNumberFormSet fs (POST request) company) (db w) \<and>
             is_valid (EmailAddressFormSet fs (POST request) company) (db w) \<and>
             is_valid (WebSiteFormSet fs (POST request) company) (db w) \<and>
             is_valid (StreetAddressFormSet fs (POST request) company) (db w)) \<longrightarrow>
            snd (update fs request pk_arg slug template w) = w)"
  using assms get_or_404_Inr [OF assms(2)]
  by (simp add: update_def messages_success_def Let_def)

theorem update_all_or_nothing_witness:
  "has_perm (user (sample_request [''contacts.change_company''] ''POST''
     [(''name'', ''Acme Ltd''), (''phone'', ''555-0199'')])) ''contacts.change_company'' \<and>
   objects_get (db sample_world) ''1'' = Inr \<lparr>pk = 1, name = ''Acme''\<rparr> \<and>
   method (sample_request [''contacts.change_company''] ''POST''
     [(''name'', ''Acme Ltd''), (''phone'', ''555-0199'')]) = ''POST'' \<and>
   is_valid (CompanyUpdateForm sample_forms (POST (sample_request [''contacts.change_company'']
     ''POST'' [(''name'', ''Acme Ltd''), (''phone'', ''555-0199'')])) \<lparr>pk = 1, name = ''Acme''\<rparr>)
     (db sample_world) \<and>
   update sample_forms (sample_request [''contacts.change_company''] ''POST''
       [(''name'', ''Acme Ltd''), (''phone'', ''555-0199'')])
     ''1'' None ''contacts/company/update.html'' sample_world
     = (Inr (Response (HttpResponseRedirect (CompanyUrl 1))),
        \<lparr>db = \<lparr>company_rows = [\<lparr>pk = 1, name = ''Acme Ltd''\<rparr>, \<lparr>pk = 2, name = ''Globex''\<rparr>],
                phone_numbers =
                  [\<lparr>owner_type = ''company'', owner_id = 1, content = ''555-0100''\<rparr>,
                   \<lparr>owner_type = ''company'', owner_id = 1, content = ''555-0199''\<rparr>],
                email_addresses = [], web_sites = [], street_addresses = []\<rparr>,
         messages = [(''success'', ''Company updated'')]\<rparr>) \<and>
   has_perm (user (sample_request [''contacts.change_company''] ''POST''
     [(''phone'', ''555-0199'')])) ''contacts.change_company'' \<and>
   method (sample_request [''contacts.change_company''] ''POST''
     [(''phone'', ''555-0199'')]) = ''POST'' \<and>
   \<not> is_valid (CompanyUpdateForm sample_forms (POST (sample_request [''contacts.change_company'']
     ''POST'' [(''phone'', ''555-0199'')])) \<lparr>pk = 1, name = ''Acme''\<rparr>) (db sample_world) \<and>
   snd (update sample_forms (sample_request [''contacts.change_company''] ''POST''
       [(''phone'', ''555-0199'')])
     ''1'' None ''contacts/company/update.html'' sample_world) = sample_world"
proof -
  let ?V = "sample_request [''contacts.change_company''] ''POST''
     [(''name'', ''Acme Ltd''), (''phone'', ''555-0199'')]"
  let ?I = "sample_request [''contacts.change_company''] ''POST'' [(''phone'', ''555-0199'')]"
  let ?T = "''contacts/company/update.html''"
  let ?c = "\<lparr>pk = 1, name = ''Acme''\<rparr>"
  have g: "objects_get (db sample_world) ''1'' = Inr ?c" by code_simp
  have pV: "has_perm (user ?V) ''contacts.change_company''" by code_simp
  have mV: "method ?V = ''POST''" by code_simp
  have v1: "is_valid (CompanyUpdateForm sample_forms (POST ?V) ?c) (db sample_world)"
    by code_simp
  have v2: "is_valid (PhoneNumberFormSet sample_forms (POST ?V) ?c) (db sample_world)"
    by code_simp
  have v3: "is_valid (EmailAddressFormSet sample_forms (POST ?V) ?c) (db sample_world)"
    by code_simp
  have v4: "is_valid (WebSiteFormSet sample_forms (POST ?V) ?c) (db sample_world)"
    by code_simp
  have v5: "is_valid (StreetAddressFormSet sample_forms (POST ?V) ?c) (db sample_world)"
    by code_simp
  have pI: "has_perm (user ?I) ''contacts.change_company''" by code_simp
  have mI: "method ?I = ''POST''" by code_simp
  have i1: "\<not> is_valid (CompanyUpdateForm sample_forms (POST ?I) ?c) (db sample_world)"
    by code_simp
  have eW: "\<lparr>db = save (StreetAddressFormSet sample_forms (POST ?V) ?c)
                    (save (WebSiteFormSet sample_forms (POST ?V) ?c)
                      (save (EmailAddressFormSet sample_forms (POST ?V) ?c)
                        (save (PhoneNumberFormSet sample_forms (POST ?V) ?c)
                          (save (CompanyUpdateForm sample_forms (POST ?V) ?c)
                             (db sample_world))))),
              messages = messages sample_world @ [(''success'', ''Company updated'')]\<rparr>
           = \<lparr>db = \<lparr>company_rows = [\<lparr>pk = 1, name = ''Acme Ltd''\<rparr>, \<lparr>pk = 2, name = ''Globex''\<rparr>],
                phone_numbers =
                  [\<lparr>owner_type = ''company'', owner_id = 1, content = ''555-0100''\<rparr>,
                   \<lparr>owner_type = ''company'', owner_id = 1, content = ''555-0199''\<rparr>],
                email_addresses = [], web_sites = [], street_addresses = []\<rparr>,
              messages = [(''success'', ''Company updated'')]\<rparr>"
    by code_simp
  have eU: "get_absolute_url ?c = CompanyUrl 1"
    by (simp add: get_absolute_url_def)
  from update_all_or_nothing [OF pV g mV, of sample_forms None ?T] v1 v2 v3 v4 v5
  have uV: "update sample_forms ?V ''1'' None ?T sample_world =
              (Inr (Response (HttpResponseRedirect (get_absolute_url ?c))),
               \<lparr>db = save (StreetAddressFormSet sample_forms (POST ?V) ?c)
                    (save (WebSiteFormSet sample_forms (POST ?V) ?c)
                      (save (EmailAddressFormSet sample_forms (POST ?V) ?c)
                        (save (PhoneNumberFormSet sample_forms (POST ?V) ?c)
                          (save (CompanyUpdateForm sample_forms (POST ?V) ?c)
                             (db sample_world))))),
                messages = messages sample_world @ [(''success'', ''Company updated'')]\<rparr>)"
    by blast
  from update_all_or_nothing [OF pI g mI, of sample_forms None ?T] i1
  have uI: "snd (update sample_forms ?I ''1'' None ?T sample_world) = sample_world"
    by blast
  show ?thesis
    using g pV mV v1 pI mI i1 uV [unfolded eW eU] uI by blast
qed

text \<open>
  C7. On a POST to the create view by a user with the permission, whose form validates:
  exactly one company is added to the store, under a primary key no stored company had,
  and nothing else in the store changes; a success notification is queued; and the view
  redirects to the new company's own URL.
\<close>

theorem create_valid_adds_one:
  assumes "has_perm (user request) ''contacts.add_company''"
    and "method request = ''POST''"
    and "CompanyCreateForm_is_valid fs (POST request) (db w)"
  shows "\<exists>c. create fs request template w =
             (Inr (Response (HttpResponseRedirect (get_absolute_url c))),
              \<lparr>db = (db w)\<lparr>company_rows := company_rows (db w) @ [c]\<rparr>,
               messages = messages w @ [(''success'', ''Company added'')]\<rparr>) \<and>
           pk c \<notin> pk ` set (company_rows (db w))"
proof -
  let ?c = "\<lparr>pk = next_pk (db w), name = field_value (POST request) ''name''\<rparr>"
  have "create fs request template w =
          (Inr (Response (HttpResponseRedirect (get_absolute_url ?c))),
           \<lparr>db = (db w)\<lparr>company_rows := company_rows (db w) @ [?c]\<rparr>,
            messages = messages w @ [(''success'', ''Company added'')]\<rparr>)"
    using assms
    by (simp add: create_def CompanyCreateForm_save_def messages_success_def Let_def)
  moreover have "pk ?c \<notin> pk ` set (company_rows (db w))"
    using next_pk_fresh [of "db w"] by simp
  ultimately show ?thesis
    by (intro exI [of _ ?c]) simp
qed

theorem create_valid_adds_one_witness:
  "has_perm (user (sample_request [''contacts.add_company''] ''POST'' [(''name'', ''Initech'')]))
     ''contacts.add_company'' \<and>
   method (sample_request [''contacts.add_company''] ''POST'' [(''name'', ''Initech'')])
     = ''POST'' \<and>
   CompanyCreateForm_is_valid sample_forms
     (POST (sample_request [''contacts.add_company''] ''POST'' [(''name'', ''Initech'')]))
     (db sample_world) \<and>
   (\<exists>c. create sample_forms
           (sample_request [''contacts.add_company''] ''POST'' [(''name'', ''Initech'')])
           ''contacts/company/create.html'' sample_world
         = (Inr (Response (HttpResponseRedirect (get_absolute_url c))),
            \<lparr>db = (db sample_world)\<lparr>company_rows := company_rows (db sample_world) @ [c]\<rparr>,
             messages = messages sample_world @ [(''success'', ''Company added'')]\<rparr>) \<and>
         pk c \<notin> pk ` set (company_rows (db sample_world))) \<and>
   create sample_forms
       (sample_request [''contacts.add_company''] ''POST'' [(''name'', ''Initech'')])
       ''contacts/company/create.html'' sample_world
     = (Inr (Response (HttpResponseRedirect (CompanyUrl 3))),
        \<lparr>db = \<lparr>company_rows = [\<lparr>pk = 1, name = ''Acme''\<rparr>, \<lparr>pk = 2, name = ''Globex''\<rparr>,
                                \<lparr>pk = 3, name = ''Initech''\<rparr>],
                phone_numbers =
                  [\<lparr>owner_type = ''company'', owner_id = 1, content = ''555-0100''\<rparr>],
                email_addresses = [], web_sites = [], street_addresses = []\<rparr>,
         messages = [(''success'', ''Company added'')]\<rparr>)"
proof -
  let ?R = "sample_request [''contacts.add_company''] ''POST'' [(''name'', ''Initech'')]"
  let ?T = "''contacts/company/create.html''"
  have p: "has_perm (user ?R) ''contacts.add_company''" by code_simp
  have m: "method ?R = ''POST''" by code_simp
  have v: "CompanyCreateForm_is_valid sample_forms (POST ?R) (db sample_world)"
    by code_simp
  have r: "fst (create sample_forms ?R ?T sample_world)
             = Inr (Response (HttpResponseRedirect (CompanyUrl 3)))"
    by code_simp
  have w: "snd (create sample_forms ?R ?T sample_world)
     = \<lparr>db = \<lparr>company_rows = [\<lparr>pk = 1, name = ''Acme''\<rparr>, \<lparr>pk = 2, name = ''Globex''\<rparr>,
                                \<lparr>pk = 3, name = ''Initech''\<rparr>],
                phone_numbers =
                  [\<lparr>owner_type = ''company'', owner_id = 1, content = ''555-0100''\<rparr>],
                email_addresses = [], web_sites = [], street_addresses = []\<rparr>,
         messages = [(''success'', ''Company added'')]\<rparr>"
    by code_simp
  have e: "create sample_forms ?R ?T sample_world
     = (Inr (Response (HttpResponseRedirect (CompanyUrl 3))),
        \<lparr>db = \<lparr>company_rows = [\<lparr>pk = 1, name = ''Acme''\<rparr>, \<lparr>pk = 2, name = ''Globex''\<rparr>,
                                \<lparr>pk = 3, name = ''Initech''\<rparr>],
                phone_numbers =
                  [\<lparr>owner_type = ''company'', owner_id = 1, content = ''555-0100''\<rparr>],
                email_addresses = [], web_sites = [], street_addresses = []\<rparr>,
         messages = [(''success'', ''Company added'')]\<rparr>)"
    using r w by (simp add: prod_eq_iff)
  show ?thesis
    using create_valid_adds_one [OF p m v, of ?T] p m v e by blast
qed

text \<open>
  C3. For every page argument that is not an integer, is at most 0 or lies beyond the last
  page, the list view raises nothing and renders the records of the last page: the same
  response as for the number of the last page.
\<close>

theorem list_invalid_page_gives_last_page:
  assumes "page_arg = NotIntLike \<or>
           (\<exists>k. page_arg = IntLike k \<and>
                (k \<le> 0 \<or> num_pages (Paginator (objects_all s) 20) < k))"
  shows "\<exists>kw. list request page_arg template s =
                Inr (Response (TemplateResponse template (ListKwvars kw))) \<and>
              kw_object_list kw =
                drop (nat (20 * (num_pages (Paginator (objects_all s) 20) - 1))) (objects_all s) \<and>
              list request page_arg template s =
                list request (IntLike (num_pages (Paginator (objects_all s) 20))) template s"
proof -
  let ?N = "num_pages (Paginator (objects_all s) 20)"
  let ?b = "nat (20 * (?N - 1))"
  have same: "list request page_arg template s = list request (IntLike ?N) template s"
    using assms by (rule list_invalid)
  have "int (length (objects_all s)) \<le> 20 * ?N"
    using num_pages_bounds [of "objects_all s"] by simp
  then have "length (drop ?b (objects_all s)) \<le> 20"
    by simp
  then have "take 20 (drop ?b (objects_all s)) = drop ?b (objects_all s)"
    by simp
  then show ?thesis
    unfolding same
    using list_valid [OF num_pages_ge1 order_refl, where s = s and request = request
        and template = template]
    by simp
qed


theorem list_invalid_page_gives_last_page_witness:
  "(IntLike 7 = NotIntLike \<or>
      (\<exists>k. IntLike 7 = IntLike k \<and>
           (k \<le> 0 \<or> num_pages (Paginator (objects_all paged_store) 20) < k))) \<and>
   (IntLike 0 = NotIntLike \<or>
      (\<exists>k. IntLike 0 = IntLike k \<and>
           (k \<le> 0 \<or> num_pages (Paginator (objects_all paged_store) 20) < k))) \<and>
   num_pages (Paginator (objects_all paged_store) 20) = 3 \<and>
   (\<exists>kw. list (sample_request [] ''GET'' []) (IntLike 7) ''contacts/company/list.html''
            paged_store
          = Inr (Response (TemplateResponse ''contacts/company/list.html'' (ListKwvars kw))) \<and>
        kw_object_list kw = map (\<lambda>i. \<lparr>pk = i, name = ''Company''\<rparr>) [41, 42, 43, 44, 45]) \<and>
   (\<exists>kw. list (sample_request [] ''GET'' []) (IntLike 0) ''contacts/company/list.html''
            paged_store
          = Inr (Response (TemplateResponse ''contacts/company/list.html'' (ListKwvars kw))) \<and>
        kw_object_list kw = map (\<lambda>i. \<lparr>pk = i, name = ''Company''\<rparr>) [41, 42, 43, 44, 45]) \<and>
   (\<exists>kw. list (sample_request [] ''GET'' []) NotIntLike ''contacts/company/list.html''
            paged_store
          = Inr (Response (TemplateResponse ''contacts/company/list.html'' (ListKwvars kw))) \<and>
        kw_object_list kw = map (\<lambda>i. \<lparr>pk = i, name = ''Company''\<rparr>) [41, 42, 43, 44, 45])"
proof -
  let ?R = "sample_request [] ''GET'' []"
  let ?T = "''contacts/company/list.html''"
  have n: "num_pages (Paginator (objects_all paged_store) 20) = 3" by code_simp
  have d: "drop (nat (20 * (num_pages (Paginator (objects_all paged_store) 20) - 1)))
             (objects_all paged_store)
           = map (\<lambda>i. \<lparr>pk = i, name = ''Company''\<rparr>) [41, 42, 43, 44, 45]"
    by code_simp
  have h7: "IntLike 7 = NotIntLike \<or>
      (\<exists>k. IntLike 7 = IntLike k \<and>
           (k \<le> 0 \<or> num_pages (Paginator (objects_all paged_store) 20) < k))"
    by (simp add: n)
  have h0: "IntLike 0 = NotIntLike \<or>
      (\<exists>k. IntLike 0 = IntLike k \<and>
           (k \<le> 0 \<or> num_pages (Paginator (objects_all paged_store) 20) < k))"
    by simp
  have hn: "NotIntLike = NotIntLike \<or>
      (\<exists>k. NotIntLike = IntLike k \<and>
           (k \<le> 0 \<or> num_pages (Paginator (objects_all paged_store) 20) < k))"
    by simp
  note t7 = list_invalid_page_gives_last_page [OF h7, where request = ?R and template = ?T,
      unfolded d]
  note t0 = list_invalid_page_gives_last_page [OF h0, where request = ?R and template = ?T,
      unfolded d]
  note tn = list_invalid_page_gives_last_page [OF hn, where request = ?R and template = ?T,
      unfolded d]
  show ?thesis
    using h7 h0 n t7 t0 tn by blast
qed

lemma end_index_min:
  assumes "1 \<le> n" and "n \<le> num_pages (Paginator xs 20)"
  shows "(if n = num_pages (Paginator xs 20) then int (length xs) else n * 20)
           = min (20 * n) (int (length xs))"
  using assms num_pages_bounds [of xs] by auto

lemma page_records_range:
  assumes "1 \<le> n" and "n \<le> num_pages (Paginator xs 20)"
  shows "take 20 (drop (nat (20 * (n - 1))) xs) =
           map (\<lambda>i. xs ! nat (i - 1)) [20 * (n - 1) + 1..min (20 * n) (int (length xs))]"
proof -
  let ?b = "20 * (n - 1)"
  let ?e = "min (20 * n) (int (length xs))"
  have b: "0 \<le> ?b" using assms by simp
  have e: "?e \<le> int (length xs)" by simp
  have "map (\<lambda>i. xs ! nat (i - 1)) [?b + 1..?e] = take (nat (?e - ?b)) (drop (nat ?b) xs)"
    using b e by (rule map_nth_upto)
  also have "\<dots> = take 20 (drop (nat ?b) xs)"
  proof (cases "int (length xs) \<le> ?b + 20")
    case True
    then have "?e = int (length xs)" by simp
    then show ?thesis using take_drop_all [OF b True] by simp
  next
    case False
    then have "?e - ?b = 20" by simp
    then show ?thesis by simp
  qed
  finally show ?thesis by simp
qed

lemma page_nonempty_bounds:
  assumes "1 \<le> n" and "n \<le> num_pages (Paginator xs 20)" and "xs \<noteq> []"
  shows "20 * (n - 1) + 1 \<le> min (20 * n) (int (length xs))"
proof -
  have "1 \<le> int (length xs)" using assms(3) by (cases xs) simp_all
  then show ?thesis
    using assms(1,2) num_pages_bounds [of xs] by auto
qed

text \<open>
  C8. For every valid page number \<open>n\<close> (from 1 to the number of pages), the list view
  renders a context in which \<^verbatim>\<open>start_index\<close> and \<^verbatim>\<open>end_index\<close> bound exactly the
  records shown: \<^verbatim>\<open>start_index\<close> is \<open>20 (n - 1) + 1\<close> (0 for an empty store),
  \<^verbatim>\<open>end_index\<close> is the smaller of \<open>20 n\<close> and the number of companies, and the
  records shown are the stored companies at the positions, counted from 1, from
  \<open>20 (n - 1) + 1\<close> to \<^verbatim>\<open>end_index\<close>, in order: in a store that is not empty, those
  from \<^verbatim>\<open>start_index\<close> to \<^verbatim>\<open>end_index\<close>, \<open>end_index - start_index + 1\<close> of them;
  in an empty store, none. \<^verbatim>\<open>has_next\<close> holds exactly when the page is not the last and
  \<^verbatim>\<open>has_previous\<close> exactly when it is not the first; \<^verbatim>\<open>next_page_number\<close> and
  \<^verbatim>\<open>previous_page_number\<close> are the neighbouring page's number when that page exists
  and \<open>None\<close> exactly when it does not.
\<close>

theorem list_valid_page_context:
  assumes "1 \<le> n" and "n \<le> num_pages (Paginator (objects_all s) 20)"
  shows "\<exists>kw. list request (IntLike n) template s =
                Inr (Response (TemplateResponse template (ListKwvars kw))) \<and>
              kw_start_index kw = (if objects_all s = [] then 0 else 20 * (n - 1) + 1) \<and>
              kw_end_index kw = min (20 * n) (int (length (objects_all s))) \<and>
              kw_object_list kw =
                map (\<lambda>i. objects_all s ! nat (i - 1)) [20 * (n - 1) + 1..kw_end_index kw] \<and>
              (objects_all s \<noteq> [] \<longrightarrow>
                 1 \<le> kw_start_index kw \<and> kw_start_index kw \<le> kw_end_index kw \<and>
                 kw_end_index kw \<le> int (length (objects_all s)) \<and>
                 kw_object_list kw =
                   map (\<lambda>i. objects_all s ! nat (i - 1)) [kw_start_index kw..kw_end_index kw] \<and>
                 int (length (kw_object_list kw)) = kw_end_index kw - kw_start_index kw + 1) \<and>
              (objects_all s = [] \<longrightarrow> kw_object_list kw = []) \<and>
              kw_object_list kw =
                map (\<lambda>i. objects_all s ! nat (i - 1))
                  (filter (\<lambda>i. kw_start_index kw \<le> i \<and> i \<le> kw_end_index kw)
                     [1..int (length (objects_all s))]) \<and>
              kw_has_next kw = (n < num_pages (Paginator (objects_all s) 20)) \<and>
              kw_has_previous kw = (1 < n) \<and>
              kw_next_page_number kw =
                (if n < num_pages (Paginator (objects_all s) 20) then Some (n + 1) else None) \<and>
              kw_previous_page_number kw = (if 1 < n then Some (n - 1) else None)"
proof -
  let ?xs = "objects_all s"
  let ?N = "num_pages (Paginator ?xs 20)"
  let ?L = "int (length ?xs)"
  let ?kw = "\<lparr>kw_object_list = take 20 (drop (nat (20 * (n - 1))) ?xs),
              kw_has_next = (n < ?N),
              kw_has_previous = (1 < n),
              kw_has_other_pages = (1 < n \<or> n < ?N),
              kw_start_index = (if ?xs = [] then 0 else 20 * (n - 1) + 1),
              kw_end_index = (if n = ?N then ?L else n * 20),
              kw_previous_page_number = (if 1 < n then Some (n - 1) else None),
              kw_next_page_number = (if n < ?N then Some (n + 1) else None)\<rparr>"
  have resp: "list request (IntLike n) template s =
                Inr (Response (TemplateResponse template (ListKwvars ?kw)))"
    using assms by (rule list_valid)
  have st: "kw_start_index ?kw = (if ?xs = [] then 0 else 20 * (n - 1) + 1)"
    by simp
  have en: "kw_end_index ?kw = min (20 * n) ?L"
    using end_index_min [OF assms] by simp
  have recs: "kw_object_list ?kw = map (\<lambda>i. ?xs ! nat (i - 1)) [20 * (n - 1) + 1..kw_end_index ?kw]"
    unfolding en using page_records_range [OF assms] by simp
  have nonempty: "?xs \<noteq> [] \<longrightarrow>
      1 \<le> kw_start_index ?kw \<and> kw_start_index ?kw \<le> kw_end_index ?kw \<and>
      kw_end_index ?kw \<le> ?L \<and>
      kw_object_list ?kw = map (\<lambda>i. ?xs ! nat (i - 1)) [kw_start_index ?kw..kw_end_index ?kw] \<and>
      int (length (kw_object_list ?kw)) = kw_end_index ?kw - kw_start_index ?kw + 1"
  proof
    assume ne: "?xs \<noteq> []"
    have s1: "kw_start_index ?kw = 20 * (n - 1) + 1" using ne by simp
    have b: "20 * (n - 1) + 1 \<le> min (20 * n) ?L"
      using assms ne by (rule page_nonempty_bounds)
    have r: "kw_object_list ?kw
               = map (\<lambda>i. ?xs ! nat (i - 1)) [kw_start_index ?kw..kw_end_index ?kw]"
      using recs unfolding s1 .
    have len: "int (length (kw_object_list ?kw)) = kw_end_index ?kw - kw_start_index ?kw + 1"
      unfolding r unfolding s1 en using b by simp
    show "1 \<le> kw_start_index ?kw \<and> kw_start_index ?kw \<le> kw_end_index ?kw \<and>
      kw_end_index ?kw \<le> ?L \<and>
      kw_object_list ?kw = map (\<lambda>i. ?xs ! nat (i - 1)) [kw_start_index ?kw..kw_end_index ?kw] \<and>
      int (length (kw_object_list ?kw)) = kw_end_index ?kw - kw_start_index ?kw + 1"
      using assms(1) b r len unfolding s1 en by simp
  qed
  have empty: "?xs = [] \<longrightarrow> kw_object_list ?kw = []"
    by simp
  have shown: "kw_object_list ?kw =
                 map (\<lambda>i. ?xs ! nat (i - 1))
                   (filter (\<lambda>i. kw_start_index ?kw \<le> i \<and> i \<le> kw_end_index ?kw)
                      [1..?L])"
    using shown_positions [OF assms] by simp
  have rest: "kw_has_next ?kw = (n < ?N)" "kw_has_previous ?kw = (1 < n)"
    "kw_next_page_number ?kw = (if n < ?N then Some (n + 1) else None)"
    "kw_previous_page_number ?kw = (if 1 < n then Some (n - 1) else None)"
    by simp_all
  show ?thesis
    using resp st en recs nonempty empty shown rest by (intro exI [of _ ?kw] conjI)
qed

theorem list_valid_page_context_witness:
  "(1::int) \<le> 2 \<and> 2 \<le> num_pages (Paginator (objects_all paged_store) 20) \<and>
   (1::int) \<le> 3 \<and> 3 \<le> num_pages (Paginator (objects_all paged_store) 20) \<and>
   (1::int) \<le> 1 \<and> 1 \<le> num_pages (Paginator (objects_all empty_store) 20) \<and>
   objects_all paged_store \<noteq> [] \<and> objects_all empty_store = [] \<and>
   (\<exists>kw. list (sample_request [] ''GET'' []) (IntLike 2) ''contacts/company/list.html''
            paged_store
          = Inr (Response (TemplateResponse ''contacts/company/list.html'' (ListKwvars kw))) \<and>
        kw_start_index kw = 21 \<and> kw_end_index kw = 40 \<and>
        int (length (kw_object_list kw)) = 20 \<and>
        kw_has_next kw \<and> kw_has_previous kw \<and>
        kw_next_page_number kw = Some 3 \<and> kw_previous_page_number kw = Some 1) \<and>
   (\<exists>kw. list (sample_request [] ''GET'' []) (IntLike 3) ''contacts/company/list.html''
            paged_store
          = Inr (Response (TemplateResponse ''contacts/company/list.html'' (ListKwvars kw))) \<and>
        kw_start_index kw = 41 \<and> kw_end_index kw = 45 \<and>
        int (length (kw_object_list kw)) = 5 \<and>
        \<not> kw_has_next kw \<and> kw_has_previous kw \<and>
        kw_next_page_number kw = None \<and> kw_previous_page_number kw = Some 2) \<and>
   (\<exists>kw. list (sample_request [] ''GET'' []) (IntLike 1) ''contacts/company/list.html''
            empty_store
          = Inr (Response (TemplateResponse ''contacts/company/list.html'' (ListKwvars kw))) \<and>
        kw_start_index kw = 0 \<and> kw_end_index kw = 0 \<and> kw_object_list kw = [] \<and>
        \<not> kw_has_next kw \<and> \<not> kw_has_previous kw \<and>
        kw_next_page_number kw = None \<and> kw_previous_page_number kw = None) \<and>
   list (sample_request [] ''GET'' []) (IntLike 2) ''contacts/company/list.html'' paged_store
     = Inr (Response (TemplateResponse ''contacts/company/list.html'' (ListKwvars
         \<lparr>kw_object_list = map (\<lambda>i. \<lparr>pk = i, name = ''Company''\<rparr>)
            [21, 22, 23, 24, 25, 26, 27, 28, 29, 30, 31, 32, 33, 34, 35, 36, 37, 38, 39, 40],
          kw_has_next = True, kw_has_previous = True, kw_has_other_pages = True,
          kw_start_index = 21, kw_end_index = 40,
          kw_previous_page_number = Some 1, kw_next_page_number = Some 3\<rparr>))) \<and>
   list (sample_request [] ''GET'' []) (IntLike 3) ''contacts/company/list.html'' paged_store
     = Inr (Response (TemplateResponse ''contacts/company/list.html'' (ListKwvars
         \<lparr>kw_object_list = map (\<lambda>i. \<lparr>pk = i, name = ''Company''\<rparr>) [41, 42, 43, 44, 45],
          kw_has_next = False, kw_has_previous = True, kw_has_other_pages = True,
          kw_start_index = 41, kw_end_index = 45,
          kw_previous_page_number = Some 2, kw_next_page_number = None\<rparr>))) \<and>
   list (sample_request [] ''GET'' []) (IntLike 1) ''contacts/company/list.html'' empty_store
     = Inr (Response (TemplateResponse ''contacts/company/list.html'' (ListKwvars
         \<lparr>kw_object_list = [],
          kw_has_next = False, kw_has_previous = False, kw_has_other_pages = False,
          kw_start_index = 0, kw_end_index = 0,
          kw_previous_page_number = None, kw_next_page_number = None\<rparr>)))"
proof -
  let ?R = "sample_request [] ''GET'' []"
  let ?T = "''contacts/company/list.html''"
  have n: "num_pages (Paginator (objects_all paged_store) 20) = 3" by code_simp
  have n0: "num_pages (Paginator (objects_all empty_store) 20) = 1" by code_simp
  have len: "int (length (objects_all paged_store)) = 45" by code_simp
  have ne: "objects_all paged_store \<noteq> []" by code_simp
  have em: "objects_all empty_store = []" by code_simp
  have a2: "(1::int) \<le> 2" and a3: "(1::int) \<le> 3" and a1: "(1::int) \<le> 1" by simp_all
  have b2: "2 \<le> num_pages (Paginator (objects_all paged_store) 20)" by (simp add: n)
  have b3: "3 \<le> num_pages (Paginator (objects_all paged_store) 20)" by (simp add: n)
  have b1: "1 \<le> num_pages (Paginator (objects_all empty_store) 20)" by (simp add: n0)
  have p2: "\<exists>kw. list ?R (IntLike 2) ?T paged_store
          = Inr (Response (TemplateResponse ?T (ListKwvars kw))) \<and>
        kw_start_index kw = 21 \<and> kw_end_index kw = 40 \<and>
        int (length (kw_object_list kw)) = 20 \<and>
        kw_has_next kw \<and> kw_has_previous kw \<and>
        kw_next_page_number kw = Some 3 \<and> kw_previous_page_number kw = Some 1"
  proof -
    from list_valid_page_context [OF a2 b2, where request = ?R and template = ?T]
    obtain kw where k: "list ?R (IntLike 2) ?T paged_store
          = Inr (Response (TemplateResponse ?T (ListKwvars kw)))"
      "kw_start_index kw = (if objects_all paged_store = [] then 0 else 20 * (2 - 1) + 1)"
      "kw_end_index kw = min (20 * 2) (int (length (objects_all paged_store)))"
      "objects_all paged_store \<noteq> [] \<longrightarrow>
         int (length (kw_object_list kw)) = kw_end_index kw - kw_start_index kw + 1"
      "kw_has_next kw = (2 < num_pages (Paginator (objects_all paged_store) 20))"
      "kw_has_previous kw = ((1::int) < 2)"
      "kw_next_page_number kw =
         (if 2 < num_pages (Paginator (objects_all paged_store) 20) then Some (2 + 1) else None)"
      "kw_previous_page_number kw = (if (1::int) < 2 then Some (2 - 1) else None)"
      by blast
    have "kw_start_index kw = 21" using k(2) ne by simp
    moreover have "kw_end_index kw = 40" using k(3) by (simp add: len)
    moreover have "int (length (kw_object_list kw)) = 20"
      using k(4) ne calculation by simp
    moreover have "kw_has_next kw" using k(5) by (simp add: n)
    moreover have "kw_has_previous kw" using k(6) by simp
    moreover have "kw_next_page_number kw = Some 3" using k(7) by (simp add: n)
    moreover have "kw_previous_page_number kw = Some 1" using k(8) by simp
    ultimately show ?thesis using k(1) by blast
  qed
  have p3: "\<exists>kw. list ?R (IntLike 3) ?T paged_store
          = Inr (Response (TemplateResponse ?T (ListKwvars kw))) \<and>
        kw_start_index kw = 41 \<and> kw_end_index kw = 45 \<and>
        int (length (kw_object_list kw)) = 5 \<and>
        \<not> kw_has_next kw \<and> kw_has_previous kw \<and>
        kw_next_page_number kw = None \<and> kw_previous_page_number kw = Some 2"
  proof -
    from list_valid_page_context [OF a3 b3, where request = ?R and template = ?T]
    obtain kw where k: "list ?R (IntLike 3) ?T paged_store
          = Inr (Response (TemplateResponse ?T (ListKwvars kw)))"
      "kw_start_index kw = (if objects_all paged_store = [] then 0 else 20 * (3 - 1) + 1)"
      "kw_end_index kw = min (20 * 3) (int (length (objects_all paged_store)))"
      "objects_all paged_store \<noteq> [] \<longrightarrow>
         int (length (kw_object_list kw)) = kw_end_index kw - kw_start_index kw + 1"
      "kw_has_next kw = (3 < num_pages (Paginator (objects_all paged_store) 20))"
      "kw_has_previous kw = ((1::int) < 3)"
      "kw_next_page_number kw =
         (if 3 < num_pages (Paginator (objects_all paged_store) 20) then Some (3 + 1) else None)"
      "kw_previous_page_number kw = (if (1::int) < 3 then Some (3 - 1) else None)"
      by blast
    have "kw_start_index kw = 41" using k(2) ne by simp
    moreover have "kw_end_index kw = 45" using k(3) by (simp add: len)
    moreover have "int (length (kw_object_list kw)) = 5"
      using k(4) ne calculation by simp
    moreover have "\<not> kw_has_next kw" using k(5) by (simp add: n)
    moreover have "kw_has_previous kw" using k(6) by simp
    moreover have "kw_next_page_number kw = None" using k(7) by (simp add: n)
    moreover have "kw_previous_page_number kw = Some 2" using k(8) by simp
    ultimately show ?thesis using k(1) by blast
  qed
  have p1: "\<exists>kw. list ?R (IntLike 1) ?T empty_store
          = Inr (Response (TemplateResponse ?T (ListKwvars kw))) \<and>
        kw_start_index kw = 0 \<and> kw_end_index kw = 0 \<and> kw_object_list kw = [] \<and>
        \<not> kw_has_next kw \<and> \<not> kw_has_previous kw \<and>
        kw_next_page_number kw = None \<and> kw_previous_page_number kw = None"
  proof -
    from list_valid_page_context [OF a1 b1, where request = ?R and template = ?T]
    obtain kw where k: "list ?R (IntLike 1) ?T empty_store
          = Inr (Response (TemplateResponse ?T (ListKwvars kw)))"
      "kw_start_index kw = (if objects_all empty_store = [] then 0 else 20 * (1 - 1) + 1)"
      "kw_end_index kw = min (20 * 1) (int (length (objects_all empty_store)))"
      "objects_all empty_store = [] \<longrightarrow> kw_object_list kw = []"
      "kw_has_next kw = (1 < num_pages (Paginator (objects_all empty_store) 20))"
      "kw_has_previous kw = ((1::int) < 1)"
      "kw_next_page_number kw =
         (if 1 < num_pages (Paginator (objects_all empty_store) 20) then Some (1 + 1) else None)"
      "kw_previous_page_number kw = (if (1::int) < 1 then Some (1 - 1) else None)"
      by blast
    have "kw_start_index kw = 0" using k(2) em by simp
    moreover have "kw_end_index kw = 0" using k(3) em by simp
    moreover have "kw_object_list kw = []" using k(4) em by simp
    moreover have "\<not> kw_has_next kw" using k(5) by (simp add: n0)
    moreover have "\<not> kw_has_previous kw" using k(6) by simp
    moreover have "kw_next_page_number kw = None" using k(7) by (simp add: n0)
    moreover have "kw_previous_page_number kw = None" using k(8) by simp
    ultimately show ?thesis using k(1) by blast
  qed
  have e2: "list ?R (IntLike 2) ?T paged_store
     = Inr (Response (TemplateResponse ?T (ListKwvars
         \<lparr>kw_object_list = map (\<lambda>i. \<lparr>pk = i, name = ''Company''\<rparr>)
            [21, 22, 23, 24, 25, 26, 27, 28, 29, 30, 31, 32, 33, 34, 35, 36, 37, 38, 39, 40],
          kw_has_next = True, kw_has_previous = True, kw_has_other_pages = True,
          kw_start_index = 21, kw_end_index = 40,
          kw_previous_page_number = Some 1, kw_next_page_number = Some 3\<rparr>)))"
    by code_simp
  have e3: "list ?R (IntLike 3) ?T paged_store
     = Inr (Response (TemplateResponse ?T (ListKwvars
         \<lparr>kw_object_list = map (\<lambda>i. \<lparr>pk = i, name = ''Company''\<rparr>) [41, 42, 43, 44, 45],
          kw_has_next = False, kw_has_previous = True, kw_has_other_pages = True,
          kw_start_index = 41, kw_end_index = 45,
          kw_previous_page_number = Some 2, kw_next_page_number = None\<rparr>)))"
    by code_simp
  have e1: "list ?R (IntLike 1) ?T empty_store
     = Inr (Response (TemplateResponse ?T (ListKwvars
         \<lparr>kw_object_list = [],
          kw_has_next = False, kw_has_previous = False, kw_has_other_pages = False,
          kw_start_index = 0, kw_end_index = 0,
          kw_previous_page_number = None, kw_next_page_number = None\<rparr>)))"
    by code_simp
  show ?thesis
    by (intro conjI a2 b2 a3 b3 a1 b1 ne em p2 p3 p1 e2 e3 e1)
qed

end
